theory Spec2Isabelle
  imports Main "HOL-Library.Product_Lexorder"
begin

section \<open>Data model\<close>

text \<open>
  The development follows \<^verbatim>\<open>src/main.py\<close>. Python strings are modelled as
  \<^typ>\<open>string\<close>, read as sequences of characters with code points below 256;
  Python integers are \<^typ>\<open>int\<close>. Exceptions are values of the type \<open>error\<close>;
  a computation that may raise returns \<open>error + 'a\<close>, with \<open>Inl\<close> for the
  exception.
\<close>

datatype error =
    AssertionError
  | KeyError string
  | TypeError
  | ValueError
  | OverflowError
  | RequestException
  | IllTyped string

text \<open>
  All constructors but the last stand for subclasses of Python's \<^verbatim>\<open>Exception\<close>.
  \<open>RequestException\<close> is what the HTTP client raises. \<open>IllTyped k\<close> is not a
  Python exception: it marks an event whose attribute \<open>k\<close> holds a value of another
  type than the dataclass annotates, which the typed model of the later stages does not
  cover (see \<open>annotated\<close> below).
\<close>

text \<open>
  A parsed JSON document (the result of \<^verbatim>\<open>response.json()\<close>). An object is an
  association list read with \<^const>\<open>map_of\<close>. Floating-point numbers are not modelled.
\<close>

datatype json =
    JNull
  | JBool bool
  | JInt int
  | JStr string
  | JArr "json list"
  | JObj "(string \<times> json) list"

text \<open>
  The dataclass \<^verbatim>\<open>SmuCalendarEvent\<close>, with the field types it declares. This is
  the typed view of an object; the object as Python stores it is \<open>stored_event\<close> below.
\<close>

record SmuCalendarEvent =
  boardNo :: string
  articleNo :: int
  articleTitle :: string
  articleText :: string
  createDt :: int
  orderDt :: int
  updateDt :: int
  etcChar4 :: string
  etcChar5 :: string
  etcChar6 :: string
  etcChar7 :: string
  etcChar8 :: string
  etcChar9 :: string

text \<open>\<^verbatim>\<open>__hash__\<close> returns the article number.\<close>

definition hash_event :: "SmuCalendarEvent \<Rightarrow> int" where
  "hash_event e = articleNo e"

text \<open>
  \<^verbatim>\<open>__eq__\<close> is the one \<^verbatim>\<open>@dataclasses.dataclass\<close> generates (the class defines
  none): the tuples of all thirteen fields are compared. On the typed record this is
  HOL's equality, written out here field by field.
\<close>

definition eq_event :: "SmuCalendarEvent \<Rightarrow> SmuCalendarEvent \<Rightarrow> bool" where
  "eq_event a b \<longleftrightarrow>
     (boardNo a, articleNo a, articleTitle a, articleText a, createDt a, orderDt a,
      updateDt a, etcChar4 a, etcChar5 a, etcChar6 a, etcChar7 a, etcChar8 a, etcChar9 a)
   = (boardNo b, articleNo b, articleTitle b, articleText b, createDt b, orderDt b,
      updateDt b, etcChar4 b, etcChar5 b, etcChar6 b, etcChar7 b, etcChar8 b, etcChar9 b)"

text \<open>\<^verbatim>\<open>__lt__\<close> compares article numbers.\<close>

definition lt_event :: "SmuCalendarEvent \<Rightarrow> SmuCalendarEvent \<Rightarrow> bool" where
  "lt_event a b \<longleftrightarrow> articleNo a < articleNo b"

section \<open>Python sets of events\<close>

text \<open>
  A Python \<^verbatim>\<open>set\<close> of events is modelled by the list of its elements. Adding an
  element looks for a stored element with the same hash that is equal to it, and keeps the
  stored one if there is one. The order in which Python iterates over a set is not
  specified; the list keeps the order of insertion. In this program the order is observed
  by \<^verbatim>\<open>sorted\<close> only, and there only among events with the same article number; no
  statement below depends on it.
\<close>

definition set_add :: "SmuCalendarEvent list \<Rightarrow> SmuCalendarEvent \<Rightarrow> SmuCalendarEvent list" where
  "set_add s e =
     (if list_ex (\<lambda>x. hash_event x = hash_event e \<and> eq_event x e) s then s else s @ [e])"

definition set_update :: "SmuCalendarEvent list \<Rightarrow> SmuCalendarEvent list \<Rightarrow> SmuCalendarEvent list" where
  "set_update s xs = foldl set_add s xs"

definition py_set :: "SmuCalendarEvent list \<Rightarrow> SmuCalendarEvent list" where
  "py_set xs = set_update [] xs"

text \<open>
  \<^verbatim>\<open>sorted(events)\<close>: a stable sort that compares elements with \<^verbatim>\<open>__lt__\<close> only,
  modelled by the stable insertion sort.
\<close>

fun insort_event :: "SmuCalendarEvent \<Rightarrow> SmuCalendarEvent list \<Rightarrow> SmuCalendarEvent list" where
  "insort_event x [] = [x]"
| "insort_event x (y # ys) = (if lt_event y x then y # insort_event x ys else x # y # ys)"

definition sorted_events :: "SmuCalendarEvent list \<Rightarrow> SmuCalendarEvent list" where
  "sorted_events xs = foldr insort_event xs []"

section \<open>The crawler\<close>

text \<open>Subscription \<^verbatim>\<open>json[key]\<close> with a string key.\<close>

fun getitem :: "json \<Rightarrow> string \<Rightarrow> error + json" where
  "getitem (JObj kvs) k = (case map_of kvs k of None \<Rightarrow> Inl (KeyError k) | Some v \<Rightarrow> Inr v)"
| "getitem _ k = Inl TypeError"

text \<open>An \<^verbatim>\<open>assert\<close> statement.\<close>

definition py_assert :: "bool \<Rightarrow> error + unit" where
  "py_assert b = (if b then Inr () else Inl AssertionError)"

text \<open>Sequencing of computations that may raise.\<close>

definition and_then :: "error + 'a \<Rightarrow> ('a \<Rightarrow> error + 'b) \<Rightarrow> error + 'b" where
  "and_then m f = (case m of Inl e \<Rightarrow> Inl e | Inr x \<Rightarrow> f x)"

text \<open>
  \<^verbatim>\<open>_validate\<close>: \<^verbatim>\<open>assert json['success'] is True\<close>, then
  \<^verbatim>\<open>assert isinstance(json['list'], list)\<close>.
\<close>

fun is_True :: "json \<Rightarrow> bool" where
  "is_True (JBool b) = b"
| "is_True _ = False"

fun isinstance_list :: "json \<Rightarrow> bool" where
  "isinstance_list (JArr _) = True"
| "isinstance_list _ = False"

definition validate :: "json \<Rightarrow> error + unit" where
  "validate j =
     and_then (getitem j ''success'') (\<lambda>s.
     and_then (py_assert (is_True s)) (\<lambda>_.
     and_then (getitem j ''list'') (\<lambda>l.
     py_assert (isinstance_list l))))"

text \<open>
  A \<^verbatim>\<open>SmuCalendarEvent\<close> object as Python holds it. The annotations of the dataclass
  are not enforced: the constructor stores the thirteen values it is given, whatever their
  types, and never raises.
\<close>

record stored_event =
  boardNo_any :: json
  articleNo_any :: json
  articleTitle_any :: json
  articleText_any :: json
  createDt_any :: json
  orderDt_any :: json
  updateDt_any :: json
  etcChar4_any :: json
  etcChar5_any :: json
  etcChar6_any :: json
  etcChar7_any :: json
  etcChar8_any :: json
  etcChar9_any :: json

definition SmuCalendarEvent_init ::
  "json \<Rightarrow> json \<Rightarrow> json \<Rightarrow> json \<Rightarrow> json \<Rightarrow> json \<Rightarrow> json \<Rightarrow> json \<Rightarrow> json \<Rightarrow> json
     \<Rightarrow> json \<Rightarrow> json \<Rightarrow> json \<Rightarrow> stored_event" where
  "SmuCalendarEvent_init v1 v2 v3 v4 v5 v6 v7 v8 v9 v10 v11 v12 v13 =
     \<lparr>boardNo_any = v1, articleNo_any = v2, articleTitle_any = v3, articleText_any = v4,
      createDt_any = v5, orderDt_any = v6, updateDt_any = v7, etcChar4_any = v8,
      etcChar5_any = v9, etcChar6_any = v10, etcChar7_any = v11, etcChar8_any = v12,
      etcChar9_any = v13\<rparr>"

text \<open>
  One step of the generator \<^verbatim>\<open>_deserialize\<close>: the thirteen subscriptions
  \<^verbatim>\<open>item['boardNo']\<close>, ..., \<^verbatim>\<open>item['etcChar9']\<close> are evaluated in the order of
  the keyword arguments, then the constructor is called.
\<close>

definition deserialize_item :: "json \<Rightarrow> error + stored_event" where
  "deserialize_item item =
     and_then (getitem item ''boardNo'') (\<lambda>v1.
     and_then (getitem item ''articleNo'') (\<lambda>v2.
     and_then (getitem item ''articleTitle'') (\<lambda>v3.
     and_then (getitem item ''articleText'') (\<lambda>v4.
     and_then (getitem item ''createDt'') (\<lambda>v5.
     and_then (getitem item ''orderDt'') (\<lambda>v6.
     and_then (getitem item ''updateDt'') (\<lambda>v7.
     and_then (getitem item ''etcChar4'') (\<lambda>v8.
     and_then (getitem item ''etcChar5'') (\<lambda>v9.
     and_then (getitem item ''etcChar6'') (\<lambda>v10.
     and_then (getitem item ''etcChar7'') (\<lambda>v11.
     and_then (getitem item ''etcChar8'') (\<lambda>v12.
     and_then (getitem item ''etcChar9'') (\<lambda>v13.
     Inr (SmuCalendarEvent_init v1 v2 v3 v4 v5 v6 v7 v8 v9 v10 v11 v12 v13))))))))))))))"

text \<open>
  \<^verbatim>\<open>for item in json['list']\<close>: the sequence the loop walks through. A list yields
  its elements, a string its characters, a dict its keys; nothing else is iterable.
\<close>

fun iter :: "json \<Rightarrow> error + json list" where
  "iter (JArr items) = Inr items"
| "iter (JStr s) = Inr (map (\<lambda>c. JStr [c]) s)"
| "iter (JObj kvs) = Inr (map JStr (remdups (map fst kvs)))"
| "iter _ = Inl TypeError"

text \<open>
  The generator run to its end, as \<^verbatim>\<open>set(...)\<close> in \<^verbatim>\<open>get_events\<close> runs it:
  the first element that raises ends the run, and the events before it are lost with it.
\<close>

fun deserialize_items :: "json list \<Rightarrow> error + stored_event list" where
  "deserialize_items [] = Inr []"
| "deserialize_items (item # items) =
     and_then (deserialize_item item) (\<lambda>e.
     and_then (deserialize_items items) (\<lambda>es. Inr (e # es)))"

definition deserialize :: "json \<Rightarrow> error + stored_event list" where
  "deserialize j =
     and_then (getitem j ''list'') (\<lambda>l.
     and_then (iter l) deserialize_items)"

text \<open>
  The typed view. Hashing, equality, ordering and the conversion of events are modelled on
  the record \<open>SmuCalendarEvent\<close>, typed as the dataclass annotates it. An object all of
  whose attributes hold values of the annotated types is such a record; for any other
  object \<open>annotated\<close> names the first attribute that does not fit.
\<close>

fun as_str :: "string \<Rightarrow> json \<Rightarrow> error + string" where
  "as_str k (JStr s) = Inr s"
| "as_str k _ = Inl (IllTyped k)"

fun as_int :: "string \<Rightarrow> json \<Rightarrow> error + int" where
  "as_int k (JInt n) = Inr n"
| "as_int k _ = Inl (IllTyped k)"

definition annotated :: "stored_event \<Rightarrow> error + SmuCalendarEvent" where
  "annotated obj =
     and_then (as_str ''boardNo'' (boardNo_any obj)) (\<lambda>x1.
     and_then (as_int ''articleNo'' (articleNo_any obj)) (\<lambda>x2.
     and_then (as_str ''articleTitle'' (articleTitle_any obj)) (\<lambda>x3.
     and_then (as_str ''articleText'' (articleText_any obj)) (\<lambda>x4.
     and_then (as_int ''createDt'' (createDt_any obj)) (\<lambda>x5.
     and_then (as_int ''orderDt'' (orderDt_any obj)) (\<lambda>x6.
     and_then (as_int ''updateDt'' (updateDt_any obj)) (\<lambda>x7.
     and_then (as_str ''etcChar4'' (etcChar4_any obj)) (\<lambda>x8.
     and_then (as_str ''etcChar5'' (etcChar5_any obj)) (\<lambda>x9.
     and_then (as_str ''etcChar6'' (etcChar6_any obj)) (\<lambda>x10.
     and_then (as_str ''etcChar7'' (etcChar7_any obj)) (\<lambda>x11.
     and_then (as_str ''etcChar8'' (etcChar8_any obj)) (\<lambda>x12.
     and_then (as_str ''etcChar9'' (etcChar9_any obj)) (\<lambda>x13.
     Inr \<lparr>boardNo = x1, articleNo = x2, articleTitle = x3, articleText = x4,
          createDt = x5, orderDt = x6, updateDt = x7, etcChar4 = x8, etcChar5 = x9,
          etcChar6 = x10, etcChar7 = x11, etcChar8 = x12, etcChar9 = x13\<rparr>)))))))))))))"

fun annotated_all :: "stored_event list \<Rightarrow> error + SmuCalendarEvent list" where
  "annotated_all [] = Inr []"
| "annotated_all (obj # objs) =
     and_then (annotated obj) (\<lambda>e.
     and_then (annotated_all objs) (\<lambda>es. Inr (e # es)))"

text \<open>
  \<^verbatim>\<open>get_events\<close>. The network request \<^verbatim>\<open>_fetch\<close> is the parameter \<open>fetch\<close>:
  for a year, the parsed response body or the exception raised. The set is built from the
  typed view of the deserialized objects.
\<close>

definition get_events :: "(int \<Rightarrow> error + json) \<Rightarrow> int \<Rightarrow> error + SmuCalendarEvent list" where
  "get_events fetch year =
     and_then (fetch year) (\<lambda>raw_data.
     and_then (validate raw_data) (\<lambda>_.
     and_then (deserialize raw_data) (\<lambda>objs.
     and_then (annotated_all objs) (\<lambda>evs. Inr (py_set evs)))))"

section \<open>The orchestrator: fetching\<close>

datatype level = INFO | WARNING | ERROR

text \<open>The log lines of the program, by their template and the year they name.\<close>

datatype message =
    StartCrawling int
  | FailedToCrawl int
  | CrawledSuccessfully int
  | StartCrawlingAdditional int
  | FailedToCrawlAdditional int
  | CrawledSuccessfullyAdditional int
  | WritingEvents

record crawl_state =
  events :: "SmuCalendarEvent list"
  logged :: "(level \<times> message) list"

definition logger :: "level \<Rightarrow> message \<Rightarrow> crawl_state \<Rightarrow> crawl_state" where
  "logger lv m st = st\<lparr>logged := logged st @ [(lv, m)]\<rparr>"

definition TARGET_YEARS :: "int \<Rightarrow> int list" where
  "TARGET_YEARS CURRENT_YEAR = [CURRENT_YEAR - 1, CURRENT_YEAR, CURRENT_YEAR + 1]"

definition ADDITIONAL_TARGET_YEARS :: "int \<Rightarrow> int list" where
  "ADDITIONAL_TARGET_YEARS CURRENT_YEAR = [CURRENT_YEAR - 3, CURRENT_YEAR - 2, CURRENT_YEAR + 2]"

text \<open>
  The body of the first loop of \<^verbatim>\<open>fetch_events\<close>: \<^verbatim>\<open>try\<close> logs the start and
  updates the set, \<^verbatim>\<open>except Exception\<close> logs an error, \<^verbatim>\<open>else\<close> logs the success.
\<close>

definition crawl_target :: "(int \<Rightarrow> error + json) \<Rightarrow> crawl_state \<Rightarrow> int \<Rightarrow> crawl_state" where
  "crawl_target fetch st year =
     (let st1 = logger INFO (StartCrawling year) st in
      case get_events fetch year of
        Inl e \<Rightarrow> logger ERROR (FailedToCrawl year) st1
      | Inr evs \<Rightarrow>
          logger INFO (CrawledSuccessfully year)
            (st1\<lparr>events := set_update (events st1) evs\<rparr>))"

text \<open>The body of the second loop: the same, with a warning on failure.\<close>

definition crawl_additional :: "(int \<Rightarrow> error + json) \<Rightarrow> crawl_state \<Rightarrow> int \<Rightarrow> crawl_state" where
  "crawl_additional fetch st year =
     (let st1 = logger INFO (StartCrawlingAdditional year) st in
      case get_events fetch year of
        Inl e \<Rightarrow> logger WARNING (FailedToCrawlAdditional year) st1
      | Inr evs \<Rightarrow>
          logger INFO (CrawledSuccessfullyAdditional year)
            (st1\<lparr>events := set_update (events st1) evs\<rparr>))"

definition fetch_events :: "int \<Rightarrow> (int \<Rightarrow> error + json) \<Rightarrow> crawl_state" where
  "fetch_events CURRENT_YEAR fetch =
     foldl (crawl_additional fetch)
       (foldl (crawl_target fetch) \<lparr>events = [], logged = []\<rparr> (TARGET_YEARS CURRENT_YEAR))
       (ADDITIONAL_TARGET_YEARS CURRENT_YEAR)"

section \<open>Standard-library and library functions the event conversion calls\<close>

subsection \<open>\<^verbatim>\<open>datetime.strptime(s, "%Y-%m-%d")\<close>\<close>

text \<open>
  The standard library compiles the format to the regular expression
  \<^verbatim>\<open>(?P<Y>\d\d\d\d)-(?P<m>1[0-2]|0[1-9]|[1-9])-(?P<d>3[0-1]|[1-2]\d|0[1-9]|[1-9]| [1-9])\<close>,
  matches it at the start of the string, raises \<^verbatim>\<open>ValueError\<close> when there is no
  match or when the match leaves characters over, converts the three groups with
  \<^verbatim>\<open>int\<close>, and builds the date, which raises \<^verbatim>\<open>ValueError\<close> when the date
  does not exist. An alternative of a group is a function from the text to the matched
  part and the rest.
\<close>

definition seq1 :: "string \<Rightarrow> string \<Rightarrow> (string \<times> string) option" where
  "seq1 cs s = (case s of a # r \<Rightarrow> if a \<in> set cs then Some ([a], r) else None | _ \<Rightarrow> None)"

definition seq2 :: "string \<Rightarrow> string \<Rightarrow> string \<Rightarrow> (string \<times> string) option" where
  "seq2 cs1 cs2 s =
     (case s of
        a # b # r \<Rightarrow> if a \<in> set cs1 \<and> b \<in> set cs2 then Some ([a, b], r) else None
      | _ \<Rightarrow> None)"

definition month_alternatives :: "(string \<Rightarrow> (string \<times> string) option) list" where
  "month_alternatives = [seq2 ''1'' ''012'', seq2 ''0'' ''123456789'', seq1 ''123456789'']"

definition day_alternatives :: "(string \<Rightarrow> (string \<times> string) option) list" where
  "day_alternatives =
     [seq2 ''3'' ''01'', seq2 ''12'' ''0123456789'', seq2 ''0'' ''123456789'',
      seq1 ''123456789'', seq2 '' '' ''123456789'']"

text \<open>The matcher tries the alternatives in order and keeps the first that lets the rest match.\<close>

fun first_match :: "('a \<Rightarrow> 'b option) \<Rightarrow> 'a list \<Rightarrow> 'b option" where
  "first_match f [] = None"
| "first_match f (x # xs) = (case f x of Some y \<Rightarrow> Some y | None \<Rightarrow> first_match f xs)"

definition match_day :: "string \<Rightarrow> (string \<times> string) option" where
  "match_day s = first_match (\<lambda>alt. alt s) day_alternatives"

definition match_month_day :: "string \<Rightarrow> (string \<times> string \<times> string) option" where
  "match_month_day s =
     first_match
       (\<lambda>alt. case alt s of
          Some (m, c # r) \<Rightarrow>
            if c = CHR ''-''
            then (case match_day r of Some (d, r') \<Rightarrow> Some (m, d, r') | None \<Rightarrow> None)
            else None
        | _ \<Rightarrow> None)
       month_alternatives"

definition regex_match :: "string \<Rightarrow> (string \<times> string \<times> string \<times> string) option" where
  "regex_match s =
     (case s of
        y1 # y2 # y3 # y4 # c # r \<Rightarrow>
          if list_all (\<lambda>y. y \<in> set ''0123456789'') [y1, y2, y3, y4] \<and> c = CHR ''-''
          then (case match_month_day r of
                  Some (m, d, r') \<Rightarrow> Some ([y1, y2, y3, y4], m, d, r')
                | None \<Rightarrow> None)
          else None
      | _ \<Rightarrow> None)"

text \<open>\<^verbatim>\<open>int\<close> on a matched group: decimal digits, after a blank in one alternative of the day.\<close>

definition py_int :: "string \<Rightarrow> nat" where
  "py_int s = foldl (\<lambda>n c. 10 * n + (of_char c - 48)) 0 (dropWhile (\<lambda>c. c = CHR '' '') s)"

definition is_leap :: "nat \<Rightarrow> bool" where
  "is_leap y \<longleftrightarrow> y mod 4 = 0 \<and> (y mod 100 \<noteq> 0 \<or> y mod 400 = 0)"

definition days_in_month :: "nat \<Rightarrow> nat \<Rightarrow> nat" where
  "days_in_month y m =
     (if m = 2 then (if is_leap y then 29 else 28)
      else if m \<in> {4, 6, 9, 11} then 30 else 31)"

definition valid_date :: "nat \<Rightarrow> nat \<Rightarrow> nat \<Rightarrow> bool" where
  "valid_date y m d \<longleftrightarrow>
     1 \<le> y \<and> y \<le> 9999 \<and> 1 \<le> m \<and> m \<le> 12 \<and> 1 \<le> d \<and> d \<le> days_in_month y m"

text \<open>
  The result is the \<^verbatim>\<open>datetime\<close> at midnight of the day, modelled by the triple
  (year, month, day); the lexicographic order of triples is the order of these datetimes.
\<close>

type_synonym datetime = "nat \<times> nat \<times> nat"

definition strptime :: "string \<Rightarrow> error + datetime" where
  "strptime s =
     (case regex_match s of
        None \<Rightarrow> Inl ValueError
      | Some (y, m, d, rest) \<Rightarrow>
          if rest \<noteq> [] then Inl ValueError
          else if valid_date (py_int y) (py_int m) (py_int d)
          then Inr (py_int y, py_int m, py_int d)
          else Inl ValueError)"

text \<open>The built-in \<^verbatim>\<open>max(a, b)\<close> returns \<open>a\<close> unless \<open>b > a\<close>.\<close>

definition py_max :: "datetime \<Rightarrow> datetime \<Rightarrow> datetime" where
  "py_max a b = (if a < b then b else a)"

subsection \<open>\<^verbatim>\<open>datetime(1970, 1, 1) + timedelta(milliseconds=ms)\<close>\<close>

text \<open>
  The sum is modelled by the offset \<open>ms\<close> itself. It exists when it lies between
  0001-01-01T00:00:00 and 9999-12-31T23:59:59.999, which are 719162 days before and
  2932896 days and 86399999 milliseconds after 1970-01-01; otherwise the addition raises
  \<^verbatim>\<open>OverflowError\<close>.
\<close>

definition msptime :: "int \<Rightarrow> error + int" where
  "msptime ms =
     (if - (719162 * 86400000) \<le> ms \<and> ms \<le> 2932896 * 86400000 + 86399999
      then Inr ms else Inl OverflowError)"

subsection \<open>\<^verbatim>\<open>html.parser.HTMLParser\<close> and the tag remover\<close>

text \<open>
  \<^verbatim>\<open>_cleanhtml\<close> creates an \<^verbatim>\<open>HTMLTagRemover\<close>, calls \<^verbatim>\<open>feed(html)\<close> once
  and returns \<^verbatim>\<open>results\<close>; it never calls \<^verbatim>\<open>close()\<close>. \<^verbatim>\<open>feed\<close> appends
  the text to the parser's buffer and runs \<^verbatim>\<open>goahead(end=False)\<close>. The standard
  library's \<^verbatim>\<open>goahead\<close> is modelled on a buffer without \<^verbatim>\<open><\<close>: it looks for an
  \<^verbatim>\<open>&\<close> among the last 34 characters; when there is one and no whitespace or
  \<^verbatim>\<open>;\<close> follows it, it stops and keeps the whole buffer for a later call; otherwise
  it passes the unescaped buffer to \<^verbatim>\<open>handle_data\<close>. The two parts of the library
  that are not modelled are parameters: what a buffer with markup passes to
  \<^verbatim>\<open>handle_data\<close>, and how \<^verbatim>\<open>html.unescape\<close> rewrites a text with \<^verbatim>\<open>&\<close>.
\<close>

record htmllib =
  parse_markup :: "string \<Rightarrow> string list"
  replace_charrefs :: "string \<Rightarrow> string"

definition unescape :: "htmllib \<Rightarrow> string \<Rightarrow> string" where
  "unescape lib s = (if CHR ''&'' \<notin> set s then s else replace_charrefs lib s)"

text \<open>\<^verbatim>\<open>s.rfind(c, start)\<close>: the highest index from \<open>start\<close> on that holds \<open>c\<close>.\<close>

definition rfind :: "char \<Rightarrow> string \<Rightarrow> nat \<Rightarrow> nat option" where
  "rfind c s start = List.find (\<lambda>i. s ! i = c) (rev [start..<length s])"

text \<open>The class \<^verbatim>\<open>[\s;]\<close> on characters below 256.\<close>

definition space_or_semicolon :: "char \<Rightarrow> bool" where
  "space_or_semicolon c \<longleftrightarrow>
     c = CHR '';'' \<or> (of_char c :: nat) \<in> {9, 10, 11, 12, 13, 28, 29, 30, 31, 32, 133, 160}"

definition goahead :: "htmllib \<Rightarrow> string \<Rightarrow> string list" where
  "goahead lib rawdata =
     (let n = length rawdata in
      if n = 0 then []
      else if CHR ''<'' \<in> set rawdata then parse_markup lib rawdata
      else (case rfind CHR ''&'' rawdata (n - 34) of
              Some amppos \<Rightarrow>
                if \<not> list_ex space_or_semicolon (drop amppos rawdata) then []
                else [unescape lib rawdata]
            | None \<Rightarrow> [unescape lib rawdata]))"

text \<open>\<^verbatim>\<open>HTMLTagRemover.handle_data\<close>: \<^verbatim>\<open>self.results += data\<close>.\<close>

definition handle_data :: "string \<Rightarrow> string \<Rightarrow> string" where
  "handle_data results data = results @ data"

definition cleanhtml :: "htmllib \<Rightarrow> string \<Rightarrow> string" where
  "cleanhtml lib html = foldl handle_data [] (goahead lib html)"

subsection \<open>\<^verbatim>\<open>ics.Event\<close> and \<^verbatim>\<open>ics.Calendar\<close>\<close>

text \<open>
  The program uses version 0.7 of the \<^verbatim>\<open>ics\<close> library (\<^verbatim>\<open>Calendar.events.add\<close>,
  \<^verbatim>\<open>serialize_iter\<close>). An \<^verbatim>\<open>ics.Event\<close> is modelled by the attributes the
  conversion sets: besides the descriptive ones, the begin \<^verbatim>\<open>_begin\<close>, the stored end
  \<^verbatim>\<open>_end_time\<close>, which may be absent, and the precision of the begin, which is
  \<^verbatim>\<open>'day'\<close> for an all-day event. No duration is ever set. Begin and end are midnights,
  so rounding them down to the day changes nothing.
\<close>

text \<open>\<^verbatim>\<open>dt + timedelta(days=1)\<close>: the next day, which does not exist after 9999-12-31.\<close>

definition add_day :: "datetime \<Rightarrow> error + datetime" where
  "add_day dt =
     (case dt of (y, m, d) \<Rightarrow>
        if d < days_in_month y m then Inr (y, m, d + 1)
        else if m < 12 then Inr (y, m + 1, 1)
        else if y < 9999 then Inr (y + 1, 1, 1)
        else Inl OverflowError)"

datatype precision = Second | Day

record ics_Event =
  uid :: string
  name :: string
  description :: string
  ev_begin :: datetime
  end_time :: "datetime option"
  begin_precision :: precision
  created :: int
  last_modified :: int
  url :: string

text \<open>The property \<^verbatim>\<open>all_day\<close>.\<close>

definition all_day :: "ics_Event \<Rightarrow> bool" where
  "all_day ev \<longleftrightarrow> begin_precision ev = Day"

text \<open>
  The property \<^verbatim>\<open>end\<close>: the stored end when there is one; otherwise, for an all-day
  event, the day after the begin, and for any other event the begin.
\<close>

definition ev_end :: "ics_Event \<Rightarrow> error + datetime" where
  "ev_end ev =
     (case end_time ev of
        Some e \<Rightarrow> Inr e
      | None \<Rightarrow> if all_day ev then add_day (ev_begin ev) else Inr (ev_begin ev))"

text \<open>
  The constructor sets the begin with the precision of a second and then the end; as the
  comment in \<^verbatim>\<open>to_ics\<close> records, setting an end that precedes the begin fails.
\<close>

definition ics_Event_init ::
  "string \<Rightarrow> string \<Rightarrow> string \<Rightarrow> datetime \<Rightarrow> datetime \<Rightarrow> int \<Rightarrow> int \<Rightarrow> string \<Rightarrow> error + ics_Event" where
  "ics_Event_init u n d b e c m l =
     (if e < b then Inl ValueError
      else Inr \<lparr>uid = u, name = n, description = d, ev_begin = b, end_time = Some e,
                begin_precision = Second, created = c, last_modified = m, url = l\<rparr>)"

text \<open>
  \<^verbatim>\<open>make_all_day\<close> does nothing for an all-day event. Otherwise it takes the days of
  the begin and of the end; when they are the same day it drops the stored end, otherwise
  it stores the day after the end day, the exclusive end of the span; then it sets the
  precision to the day.
\<close>

definition make_all_day :: "ics_Event \<Rightarrow> error + ics_Event" where
  "make_all_day ev =
     (if all_day ev then Inr ev
      else and_then (ev_end ev) (\<lambda>end_day.
           if ev_begin ev = end_day
           then Inr (ev\<lparr>end_time := None, begin_precision := Day\<rparr>)
           else and_then (add_day end_day) (\<lambda>e.
                Inr (ev\<lparr>end_time := Some e, begin_precision := Day\<rparr>))))"

text \<open>
  A calendar holds its creator and the events added to it, here in the order of the calls
  of \<^verbatim>\<open>events.add\<close>.
\<close>

record Calendar =
  creator :: string
  cal_events :: "ics_Event list"

section \<open>The event conversion\<close>

text \<open>\<^verbatim>\<open>str\<close> of an integer.\<close>

fun str_nat :: "nat \<Rightarrow> string" where
  "str_nat n =
     (if n < 10 then [char_of (48 + n)]
      else str_nat (n div 10) @ [char_of (48 + n mod 10)])"

definition str_int :: "int \<Rightarrow> string" where
  "str_int i = (if i < 0 then CHR ''-'' # str_nat (nat (- i)) else str_nat (nat i))"

text \<open>
  \<^verbatim>\<open>to_ics\<close>. The arguments of the constructor are evaluated in the order they are
  written, so the first one that raises decides the exception. The event returned is the
  one \<^verbatim>\<open>make_all_day\<close> has changed.
\<close>

definition to_ics :: "htmllib \<Rightarrow> SmuCalendarEvent \<Rightarrow> error + ics_Event" where
  "to_ics lib self =
     (let u = str_int (articleNo self);
          n = articleTitle self;
          d = cleanhtml lib (articleText self) in
      and_then (strptime (etcChar6 self)) (\<lambda>b.
      and_then (strptime (etcChar6 self)) (\<lambda>s.
      and_then (strptime (etcChar7 self)) (\<lambda>t.
      and_then (msptime (createDt self)) (\<lambda>c.
      and_then (msptime (updateDt self)) (\<lambda>m.
      and_then
        (ics_Event_init u n d b (py_max s t) c m
           (''https://www.smu.ac.kr/kor/life/academicCalendar.do?mode=view&articleNo=''
              @ str_int (articleNo self) @ ''&boardNo='' @ boardNo self))
        (\<lambda>event. make_all_day event)))))))"

section \<open>The orchestrator: the run\<close>

text \<open>The loop \<^verbatim>\<open>for evt in sorted(events): icalendar.events.add(evt.to_ics())\<close>.\<close>

fun add_events :: "htmllib \<Rightarrow> Calendar \<Rightarrow> SmuCalendarEvent list \<Rightarrow> error + Calendar" where
  "add_events lib icalendar [] = Inr icalendar"
| "add_events lib icalendar (evt # evts) =
     and_then (to_ics lib evt) (\<lambda>e.
     add_events lib (icalendar\<lparr>cal_events := cal_events icalendar @ [e]\<rparr>) evts)"

text \<open>
  \<^verbatim>\<open>main\<close>. The creation of the output directory and the writing of the serialized
  calendar are the parameter \<open>write\<close>: for a calendar, success or the exception raised.
  The result is how the run ends (\<open>Inr ()\<close>: normally) and what it logged.
\<close>

definition main ::
  "string \<Rightarrow> int \<Rightarrow> htmllib \<Rightarrow> (int \<Rightarrow> error + json) \<Rightarrow> (Calendar \<Rightarrow> error + unit)
     \<Rightarrow> (error + unit) \<times> (level \<times> message) list" where
  "main ICS_AUTHOR CURRENT_YEAR lib fetch write =
     (let icalendar = \<lparr>creator = ICS_AUTHOR, cal_events = []\<rparr>;
          st = fetch_events CURRENT_YEAR fetch in
      case add_events lib icalendar (sorted_events (events st)) of
        Inl e \<Rightarrow> (Inl e, logged st)
      | Inr cal \<Rightarrow> (write cal, logged st @ [(INFO, WritingEvents)]))"

section \<open>Example inputs\<close>

text \<open>
  Concrete inputs for the instances below: a record in the two forms it takes (as an element
  of the response and as an event), a response that passes validation, a network that
  answers for the year 2024 only, one that never answers, an output that can always be
  written, and a stand-in for the parts of the HTML library that are parameters.
\<close>

definition example_event :: "int \<Rightarrow> string \<Rightarrow> string \<Rightarrow> string \<Rightarrow> SmuCalendarEvent" where
  "example_event no title start stop =
     \<lparr>boardNo = ''85'', articleNo = no, articleTitle = title, articleText = ''plain'',
      createDt = 1672028823000, orderDt = 1672028823000, updateDt = 1674201156000,
      etcChar4 = ''2022'', etcChar5 = ''second_term'', etcChar6 = start, etcChar7 = stop,
      etcChar8 = ''bachelor'', etcChar9 = ''seoul''\<rparr>"

definition example_item :: "int \<Rightarrow> string \<Rightarrow> string \<Rightarrow> string \<Rightarrow> json" where
  "example_item no title start stop =
     JObj [(''boardNo'', JStr ''85''), (''articleNo'', JInt no), (''articleTitle'', JStr title),
           (''articleText'', JStr ''plain''), (''createDt'', JInt 1672028823000),
           (''orderDt'', JInt 1672028823000), (''updateDt'', JInt 1674201156000),
           (''etcChar4'', JStr ''2022''), (''etcChar5'', JStr ''second_term''),
           (''etcChar6'', JStr start), (''etcChar7'', JStr stop),
           (''etcChar8'', JStr ''bachelor''), (''etcChar9'', JStr ''seoul'')]"

definition example_response :: "json list \<Rightarrow> json" where
  "example_response items = JObj [(''success'', JBool True), (''list'', JArr items)]"

definition example_fetch :: "json \<Rightarrow> int \<Rightarrow> error + json" where
  "example_fetch r year = (if year = 2024 then Inr r else Inl RequestException)"

definition failing_fetch :: "int \<Rightarrow> error + json" where
  "failing_fetch year = Inl RequestException"

definition write_ok :: "Calendar \<Rightarrow> error + unit" where
  "write_ok cal = Inr ()"

definition example_lib :: htmllib where
  "example_lib = \<lparr>parse_markup = (\<lambda>s. []), replace_charrefs = (\<lambda>s. s)\<rparr>"

text \<open>
  Two versions of article 42 that differ in the title only, and a response that lists both.
\<close>

definition version_A :: SmuCalendarEvent where
  "version_A = example_event 42 ''A'' ''2024-03-01'' ''2024-03-02''"

definition version_B :: SmuCalendarEvent where
  "version_B = example_event 42 ''B'' ''2024-03-01'' ''2024-03-02''"

definition two_versions :: json where
  "two_versions =
     example_response [example_item 42 ''A'' ''2024-03-01'' ''2024-03-02'',
                       example_item 42 ''B'' ''2024-03-01'' ''2024-03-02'']"

text \<open>
  A record that agrees with an example on the eight fields the conversion reads and differs
  in the other five; a response whose only record has a start date in another format; a
  response with three records out of order.
\<close>

definition other_unused_fields :: SmuCalendarEvent where
  "other_unused_fields =
     (example_event 100 ''T'' ''2024-03-01'' ''2024-02-28'')
       \<lparr>orderDt := 0, etcChar4 := ''2023'', etcChar5 := ''first_term'',
        etcChar8 := ''master'', etcChar9 := ''cheonan''\<rparr>"



text \<open>
  The thirteen keys \<^verbatim>\<open>_deserialize\<close> reads, in the order it reads them, what it
  means that an element holds all of them, and what it means that an object holds the values
  an element has under these keys.
\<close>

definition required_keys :: "string list" where
  "required_keys =
     [''boardNo'', ''articleNo'', ''articleTitle'', ''articleText'', ''createDt'', ''orderDt'',
      ''updateDt'', ''etcChar4'', ''etcChar5'', ''etcChar6'', ''etcChar7'', ''etcChar8'',
      ''etcChar9'']"

definition has_all_keys :: "json \<Rightarrow> bool" where
  "has_all_keys item =
     (case item of
        JObj kvs \<Rightarrow> list_all (\<lambda>k. map_of kvs k \<noteq> None) required_keys
      | _ \<Rightarrow> False)"

definition reads_by_key :: "json \<Rightarrow> stored_event \<Rightarrow> bool" where
  "reads_by_key item obj \<longleftrightarrow>
     getitem item ''boardNo'' = Inr (boardNo_any obj) \<and>
     getitem item ''articleNo'' = Inr (articleNo_any obj) \<and>
     getitem item ''articleTitle'' = Inr (articleTitle_any obj) \<and>
     getitem item ''articleText'' = Inr (articleText_any obj) \<and>
     getitem item ''createDt'' = Inr (createDt_any obj) \<and>
     getitem item ''orderDt'' = Inr (orderDt_any obj) \<and>
     getitem item ''updateDt'' = Inr (updateDt_any obj) \<and>
     getitem item ''etcChar4'' = Inr (etcChar4_any obj) \<and>
     getitem item ''etcChar5'' = Inr (etcChar5_any obj) \<and>
     getitem item ''etcChar6'' = Inr (etcChar6_any obj) \<and>
     getitem item ''etcChar7'' = Inr (etcChar7_any obj) \<and>
     getitem item ''etcChar8'' = Inr (etcChar8_any obj) \<and>
     getitem item ''etcChar9'' = Inr (etcChar9_any obj)"

text \<open>A response whose second element lacks every key but \<^verbatim>\<open>boardNo\<close>.\<close>

definition missing_key_response :: json where
  "missing_key_response =
     example_response [example_item 1 ''T'' ''2024-03-01'' ''2024-03-02'',
                       JObj [(''boardNo'', JStr ''85'')]]"

text \<open>
  The example record as an object, and a record whose campus tag is null: it holds all
  thirteen keys, one of them with a value of another type than annotated.
\<close>

definition example_stored :: "int \<Rightarrow> string \<Rightarrow> string \<Rightarrow> string \<Rightarrow> stored_event" where
  "example_stored no title start stop =
     SmuCalendarEvent_init (JStr ''85'') (JInt no) (JStr title) (JStr ''plain'')
       (JInt 1672028823000) (JInt 1672028823000) (JInt 1674201156000) (JStr ''2022'')
       (JStr ''second_term'') (JStr start) (JStr stop) (JStr ''bachelor'') (JStr ''seoul'')"

definition null_campus_item :: json where
  "null_campus_item =
     JObj [(''boardNo'', JStr ''85''), (''articleNo'', JInt 9), (''articleTitle'', JStr ''T''),
           (''articleText'', JStr ''plain''), (''createDt'', JInt 1672028823000),
           (''orderDt'', JInt 1672028823000), (''updateDt'', JInt 1674201156000),
           (''etcChar4'', JStr ''2022''), (''etcChar5'', JStr ''second_term''),
           (''etcChar6'', JStr ''2024-03-01''), (''etcChar7'', JStr ''2024-03-02''),
           (''etcChar8'', JStr ''bachelor''), (''etcChar9'', JNull)]"

definition null_campus_stored :: stored_event where
  "null_campus_stored =
     SmuCalendarEvent_init (JStr ''85'') (JInt 9) (JStr ''T'') (JStr ''plain'')
       (JInt 1672028823000) (JInt 1672028823000) (JInt 1674201156000) (JStr ''2022'')
       (JStr ''second_term'') (JStr ''2024-03-01'') (JStr ''2024-03-02'') (JStr ''bachelor'')
       JNull"

definition null_campus_response :: json where
  "null_campus_response =
     example_response [example_item 1 ''T'' ''2024-03-01'' ''2024-03-02'', null_campus_item]"

section \<open>Properties\<close>

subsection \<open>Sorting by article number\<close>

lemma insort_event_insort_key: "insort_event x ys = insort_key articleNo x ys"
  by (induction ys) (auto simp: lt_event_def)

lemma sorted_events_sort_key: "sorted_events xs = sort_key articleNo xs"
  by (induction xs) (simp_all add: sorted_events_def insort_event_insort_key)

subsection \<open>Auxiliary facts about the error monad and subscription\<close>

lemma and_then_Inr_iff: "and_then m f = Inr y \<longleftrightarrow> (\<exists>x. m = Inr x \<and> f x = Inr y)"
  by (cases m) (auto simp: and_then_def)

lemma and_then_Inl_iff:
  "and_then m f = Inl e \<longleftrightarrow> m = Inl e \<or> (\<exists>x. m = Inr x \<and> f x = Inl e)"
  by (cases m) (auto simp: and_then_def)

lemma and_then_simps [simp]:
  "and_then (Inl e) f = Inl e"
  "and_then (Inr x) f = f x"
  by (simp_all add: and_then_def)

lemma py_assert_Inr_iff: "py_assert b = Inr u \<longleftrightarrow> b"
  by (simp add: py_assert_def)

lemma getitem_Inr_iff:
  "getitem j k = Inr v \<longleftrightarrow> (\<exists>kvs. j = JObj kvs \<and> map_of kvs k = Some v)"
  by (cases j) (auto split: option.splits)

lemma getitem_cases:
  "(\<exists>v. getitem j k = Inr v) \<or> getitem j k = Inl (KeyError k) \<or> getitem j k = Inl TypeError"
  by (cases j) (auto split: option.splits)

lemma is_True_iff: "is_True s \<longleftrightarrow> s = JBool True"
  by (cases s) auto

lemma isinstance_list_iff: "isinstance_list l \<longleftrightarrow> (\<exists>items. l = JArr items)"
  by (cases l) auto

subsection \<open>Validation of a response\<close>

text \<open>
  Claim C6. \<^verbatim>\<open>_validate\<close> succeeds exactly when the response is an object whose
  \<^verbatim>\<open>success\<close> entry is the JSON value true and whose \<^verbatim>\<open>list\<close> entry is an
  array (of any length). In every other case it raises: \<^verbatim>\<open>AssertionError\<close> when an
  entry has another value, \<^verbatim>\<open>KeyError\<close> when an entry is missing, \<^verbatim>\<open>TypeError\<close>
  when the response is not an object.
\<close>

theorem validate_accepts_iff:
  "(validate j = Inr () \<longleftrightarrow>
      (\<exists>kvs items. j = JObj kvs \<and> map_of kvs ''success'' = Some (JBool True)
         \<and> map_of kvs ''list'' = Some (JArr items)))
   \<and> (validate j = Inr () \<or> validate j = Inl AssertionError
        \<or> validate j = Inl (KeyError ''success'') \<or> validate j = Inl (KeyError ''list'')
        \<or> validate j = Inl TypeError)"
proof
  show "validate j = Inr () \<longleftrightarrow>
      (\<exists>kvs items. j = JObj kvs \<and> map_of kvs ''success'' = Some (JBool True)
         \<and> map_of kvs ''list'' = Some (JArr items))"
    unfolding validate_def
    by (auto simp: and_then_Inr_iff py_assert_Inr_iff getitem_Inr_iff is_True_iff
        isinstance_list_iff)
next
  show "validate j = Inr () \<or> validate j = Inl AssertionError
        \<or> validate j = Inl (KeyError ''success'') \<or> validate j = Inl (KeyError ''list'')
        \<or> validate j = Inl TypeError"
    using getitem_cases[of j "''success''"] getitem_cases[of j "''list''"]
    by (cases "is_True (projr (getitem j ''success''))";
        cases "isinstance_list (projr (getitem j ''list''))")
       (auto simp: validate_def and_then_def py_assert_def)
qed

subsection \<open>Auxiliary facts about sets of events and the two loops\<close>

lemma eq_event_iff: "eq_event a b \<longleftrightarrow> a = b"
  by (cases a; cases b) (auto simp: eq_event_def)

lemma set_add_eq: "set_add s e = (if e \<in> set s then s else s @ [e])"
  by (auto simp: set_add_def list_ex_iff eq_event_iff hash_event_def)

lemma set_set_add: "set (set_add s e) = insert e (set s)"
  by (auto simp: set_add_eq)

lemma distinct_set_add: "distinct s \<Longrightarrow> distinct (set_add s e)"
  by (simp add: set_add_eq)

lemma set_set_update: "set (set_update s xs) = set s \<union> set xs"
  unfolding set_update_def by (induction xs arbitrary: s) (auto simp: set_set_add)

lemma distinct_set_update: "distinct s \<Longrightarrow> distinct (set_update s xs)"
  unfolding set_update_def by (induction xs arbitrary: s) (auto simp: distinct_set_add)

lemma set_py_set: "set (py_set xs) = set xs"
  by (simp add: py_set_def set_set_update)

lemma distinct_py_set: "distinct (py_set xs)"
  by (simp add: py_set_def distinct_set_update)

lemma events_crawl_target:
  "events (crawl_target fetch st y) =
     (case get_events fetch y of Inl e \<Rightarrow> events st | Inr evs \<Rightarrow> set_update (events st) evs)"
  by (simp add: crawl_target_def logger_def Let_def split: sum.splits)

lemma events_crawl_additional:
  "events (crawl_additional fetch st y) =
     (case get_events fetch y of Inl e \<Rightarrow> events st | Inr evs \<Rightarrow> set_update (events st) evs)"
  by (simp add: crawl_additional_def logger_def Let_def split: sum.splits)

lemma logged_crawl_target:
  "logged (crawl_target fetch st y) =
     logged st @ [(INFO, StartCrawling y),
       (case get_events fetch y of Inl e \<Rightarrow> (ERROR, FailedToCrawl y)
        | Inr evs \<Rightarrow> (INFO, CrawledSuccessfully y))]"
  by (simp add: crawl_target_def logger_def Let_def split: sum.splits)

lemma logged_crawl_additional:
  "logged (crawl_additional fetch st y) =
     logged st @ [(INFO, StartCrawlingAdditional y),
       (case get_events fetch y of Inl e \<Rightarrow> (WARNING, FailedToCrawlAdditional y)
        | Inr evs \<Rightarrow> (INFO, CrawledSuccessfullyAdditional y))]"
  by (simp add: crawl_additional_def logger_def Let_def split: sum.splits)

lemma set_events_foldl_target:
  "set (events (foldl (crawl_target fetch) st ys)) =
     set (events st) \<union> (\<Union>y\<in>set ys. case get_events fetch y of Inl e \<Rightarrow> {} | Inr evs \<Rightarrow> set evs)"
  by (induction ys arbitrary: st)
     (auto simp: events_crawl_target set_set_update split: sum.splits)

lemma set_events_foldl_additional:
  "set (events (foldl (crawl_additional fetch) st ys)) =
     set (events st) \<union> (\<Union>y\<in>set ys. case get_events fetch y of Inl e \<Rightarrow> {} | Inr evs \<Rightarrow> set evs)"
  by (induction ys arbitrary: st)
     (auto simp: events_crawl_additional set_set_update split: sum.splits)

lemma distinct_events_foldl_target:
  "distinct (events st) \<Longrightarrow> distinct (events (foldl (crawl_target fetch) st ys))"
  by (induction ys arbitrary: st)
     (auto simp: events_crawl_target distinct_set_update split: sum.splits)

lemma distinct_events_foldl_additional:
  "distinct (events st) \<Longrightarrow> distinct (events (foldl (crawl_additional fetch) st ys))"
  by (induction ys arbitrary: st)
     (auto simp: events_crawl_additional distinct_set_update split: sum.splits)

lemma set_events_fetch_events:
  "set (events (fetch_events cy fetch)) =
     (\<Union>y\<in>set (TARGET_YEARS cy @ ADDITIONAL_TARGET_YEARS cy).
        case get_events fetch y of Inl e \<Rightarrow> {} | Inr evs \<Rightarrow> set evs)"
  by (simp add: fetch_events_def set_events_foldl_additional set_events_foldl_target Un_commute)

lemma distinct_events_fetch_events: "distinct (events (fetch_events cy fetch))"
  by (simp add: fetch_events_def distinct_events_foldl_additional distinct_events_foldl_target)

lemma logged_fetch_events:
  "logged (fetch_events cy fetch) =
     concat (map (\<lambda>y. [(INFO, StartCrawling y),
                (case get_events fetch y of Inl e \<Rightarrow> (ERROR, FailedToCrawl y)
                 | Inr evs \<Rightarrow> (INFO, CrawledSuccessfully y))]) (TARGET_YEARS cy))
     @ concat (map (\<lambda>y. [(INFO, StartCrawlingAdditional y),
                (case get_events fetch y of Inl e \<Rightarrow> (WARNING, FailedToCrawlAdditional y)
                 | Inr evs \<Rightarrow> (INFO, CrawledSuccessfullyAdditional y))]) (ADDITIONAL_TARGET_YEARS cy))"
  by (simp add: fetch_events_def TARGET_YEARS_def ADDITIONAL_TARGET_YEARS_def
      logged_crawl_target logged_crawl_additional)

subsection \<open>The example inputs, evaluated\<close>

lemma deserialize_example_item:
  "deserialize_item (example_item no title start stop) = Inr (example_stored no title start stop)"
  by (simp add: deserialize_item_def example_item_def example_stored_def)

lemma annotated_example_stored:
  "annotated (example_stored no title start stop) = Inr (example_event no title start stop)"
  by (simp add: annotated_def example_stored_def example_event_def SmuCalendarEvent_init_def)

lemma validate_example_response: "validate (example_response items) = Inr ()"
  by (simp add: validate_def example_response_def py_assert_def)

lemma deserialize_example_response:
  "deserialize (example_response items) = deserialize_items items"
  by (simp add: deserialize_def example_response_def)

lemma get_events_example_fetch:
  "get_events (example_fetch r) year =
     (if year = 2024
      then and_then (validate r) (\<lambda>_. and_then (deserialize r) (\<lambda>objs.
             and_then (annotated_all objs) (\<lambda>evs. Inr (py_set evs))))
      else Inl RequestException)"
  by (simp add: get_events_def example_fetch_def)

lemma get_events_failing_fetch: "get_events failing_fetch year = Inl RequestException"
  by (simp add: get_events_def failing_fetch_def)

lemmas run_example =
  fetch_events_def TARGET_YEARS_def ADDITIONAL_TARGET_YEARS_def crawl_target_def
  crawl_additional_def logger_def get_events_example_fetch get_events_failing_fetch
  validate_example_response deserialize_example_response deserialize_example_item
  annotated_example_stored
  py_set_def set_update_def set_add_def eq_event_def hash_event_def

lemma get_events_two_versions:
  "get_events (example_fetch two_versions) 2024 = Inr [version_A, version_B]"
  by (simp add: run_example two_versions_def version_A_def version_B_def example_event_def)

lemma fetch_events_two_versions:
  "events (fetch_events 2024 (example_fetch two_versions)) = [version_A, version_B]"
  by (simp add: run_example two_versions_def version_A_def version_B_def example_event_def)

subsection \<open>Deduplication in the aggregated set\<close>

lemma kept_count:
  assumes "distinct xs" "a \<in> set xs" "b \<in> set xs"
  shows "length (filter (\<lambda>e. e = a \<or> e = b) xs) = (if a = b then 1 else 2)"
proof -
  have "{e. e = a \<or> e = b} \<inter> set xs = {a, b}"
    using assms by auto
  then have "length (filter (\<lambda>e. e = a \<or> e = b) xs) = card {a, b}"
    using assms(1) by (simp add: distinct_length_filter)
  then show ?thesis by simp
qed

lemma crawled_event_in_aggregate:
  assumes "y \<in> set (TARGET_YEARS cy @ ADDITIONAL_TARGET_YEARS cy)"
    and "get_events fetch y = Inr evs" and "a \<in> set evs"
  shows "a \<in> set (events (fetch_events cy fetch))"
  unfolding set_events_fetch_events using assms by (auto intro!: bexI[of _ y])

text \<open>
  Claim C1 as stated fails: the two versions of article 42 have the same article number,
  and the aggregated set of a run that receives both holds both.
\<close>

theorem same_article_number_kept_twice:
  "articleNo version_A = articleNo version_B
   \<and> events (fetch_events 2024 (example_fetch two_versions)) = [version_A, version_B]"
  by (simp add: fetch_events_two_versions) (simp add: version_A_def version_B_def example_event_def)

text \<open>
  Claim C1, amended. Two events that successful years delivered are kept as one element of
  the aggregated set exactly when they are equal under the dataclass's \<^verbatim>\<open>__eq__\<close>, that
  is, when they agree on all thirteen fields; otherwise both are kept, whether or not their
  article numbers agree.
\<close>

theorem aggregation_keeps_one_iff_all_fields_equal:
  assumes "y1 \<in> set (TARGET_YEARS cy @ ADDITIONAL_TARGET_YEARS cy)"
    and "get_events fetch y1 = Inr evs1" and "a \<in> set evs1"
    and "y2 \<in> set (TARGET_YEARS cy @ ADDITIONAL_TARGET_YEARS cy)"
    and "get_events fetch y2 = Inr evs2" and "b \<in> set evs2"
  shows "length (filter (\<lambda>e. e = a \<or> e = b) (events (fetch_events cy fetch)))
           = (if eq_event a b then 1 else 2)"
  using kept_count[OF distinct_events_fetch_events, of a cy fetch b]
    crawled_event_in_aggregate[OF assms(1-3)] crawled_event_in_aggregate[OF assms(4-6)]
  by (simp add: eq_event_iff)

theorem aggregation_keeps_one_iff_all_fields_equal_witness:
  "2024 \<in> set (TARGET_YEARS 2024 @ ADDITIONAL_TARGET_YEARS 2024)
   \<and> get_events (example_fetch two_versions) 2024 = Inr [version_A, version_B]
   \<and> version_A \<in> set [version_A, version_B] \<and> version_B \<in> set [version_A, version_B]
   \<and> articleNo version_A = articleNo version_B
   \<and> length (filter (\<lambda>e. e = version_A \<or> e = version_B)
        (events (fetch_events 2024 (example_fetch two_versions)))) = 2
   \<and> length (filter (\<lambda>e. e = version_A \<or> e = version_A)
        (events (fetch_events 2024 (example_fetch two_versions)))) = 1"
proof -
  have y: "2024 \<in> set (TARGET_YEARS 2024 @ ADDITIONAL_TARGET_YEARS 2024)"
    by (simp add: TARGET_YEARS_def)
  have a: "version_A \<in> set [version_A, version_B]" and b: "version_B \<in> set [version_A, version_B]"
    by simp_all
  have ne: "\<not> eq_event version_A version_B" and eq: "eq_event version_A version_A"
    and no: "articleNo version_A = articleNo version_B"
    by (simp_all add: eq_event_def version_A_def version_B_def example_event_def)
  show ?thesis
    using aggregation_keeps_one_iff_all_fields_equal[OF y get_events_two_versions a y
        get_events_two_versions b]
      aggregation_keeps_one_iff_all_fields_equal[OF y get_events_two_versions a y
        get_events_two_versions a]
      y get_events_two_versions ne eq no
    by simp
qed

subsection \<open>Failures of single years\<close>

text \<open>
  Claim C3. Whatever \<^verbatim>\<open>get_events\<close> raises for a year, \<^verbatim>\<open>fetch_events\<close> goes on:
  a primary year that fails leaves an error line, an additional year that fails leaves a
  warning line, every one of the six years is started, and the aggregated set holds exactly
  the events of the years that succeeded.
\<close>

theorem crawl_failures_are_logged_and_skipped:
  "(\<forall>y\<in>set (TARGET_YEARS cy). isl (get_events fetch y) \<longrightarrow>
       (ERROR, FailedToCrawl y) \<in> set (logged (fetch_events cy fetch)))
   \<and> (\<forall>y\<in>set (ADDITIONAL_TARGET_YEARS cy). isl (get_events fetch y) \<longrightarrow>
       (WARNING, FailedToCrawlAdditional y) \<in> set (logged (fetch_events cy fetch)))
   \<and> (\<forall>y\<in>set (TARGET_YEARS cy).
       (INFO, StartCrawling y) \<in> set (logged (fetch_events cy fetch)))
   \<and> (\<forall>y\<in>set (ADDITIONAL_TARGET_YEARS cy).
       (INFO, StartCrawlingAdditional y) \<in> set (logged (fetch_events cy fetch)))
   \<and> set (events (fetch_events cy fetch)) =
       (\<Union>y\<in>set (TARGET_YEARS cy @ ADDITIONAL_TARGET_YEARS cy).
          case get_events fetch y of Inl e \<Rightarrow> {} | Inr evs \<Rightarrow> set evs)"
proof (intro conjI)
  show "\<forall>y\<in>set (TARGET_YEARS cy). isl (get_events fetch y) \<longrightarrow>
       (ERROR, FailedToCrawl y) \<in> set (logged (fetch_events cy fetch))"
    unfolding logged_fetch_events
    by (intro ballI impI) (auto simp: isl_def intro!: bexI)
  show "\<forall>y\<in>set (ADDITIONAL_TARGET_YEARS cy). isl (get_events fetch y) \<longrightarrow>
       (WARNING, FailedToCrawlAdditional y) \<in> set (logged (fetch_events cy fetch))"
    unfolding logged_fetch_events
    by (intro ballI impI) (auto simp: isl_def intro!: bexI)
  show "\<forall>y\<in>set (TARGET_YEARS cy).
       (INFO, StartCrawling y) \<in> set (logged (fetch_events cy fetch))"
    unfolding logged_fetch_events by auto
  show "\<forall>y\<in>set (ADDITIONAL_TARGET_YEARS cy).
       (INFO, StartCrawlingAdditional y) \<in> set (logged (fetch_events cy fetch))"
    unfolding logged_fetch_events by auto
  show "set (events (fetch_events cy fetch)) =
       (\<Union>y\<in>set (TARGET_YEARS cy @ ADDITIONAL_TARGET_YEARS cy).
          case get_events fetch y of Inl e \<Rightarrow> {} | Inr evs \<Rightarrow> set evs)"
    by (rule set_events_fetch_events)
qed

theorem crawl_failures_are_logged_and_skipped_witness:
  "2023 \<in> set (TARGET_YEARS 2024) \<and> isl (get_events (example_fetch two_versions) 2023)
   \<and> (ERROR, FailedToCrawl 2023) \<in> set (logged (fetch_events 2024 (example_fetch two_versions)))
   \<and> 2026 \<in> set (ADDITIONAL_TARGET_YEARS 2024)
   \<and> isl (get_events (example_fetch two_versions) 2026)
   \<and> (WARNING, FailedToCrawlAdditional 2026)
        \<in> set (logged (fetch_events 2024 (example_fetch two_versions)))
   \<and> (INFO, StartCrawling 2025) \<in> set (logged (fetch_events 2024 (example_fetch two_versions)))
   \<and> (INFO, StartCrawlingAdditional 2026)
        \<in> set (logged (fetch_events 2024 (example_fetch two_versions)))
   \<and> set (events (fetch_events 2024 (example_fetch two_versions))) = {version_A, version_B}"
proof -
  have y: "2023 \<in> set (TARGET_YEARS 2024)" "2025 \<in> set (TARGET_YEARS 2024)"
    "2026 \<in> set (ADDITIONAL_TARGET_YEARS 2024)"
    by (simp_all add: TARGET_YEARS_def ADDITIONAL_TARGET_YEARS_def)
  have f: "isl (get_events (example_fetch two_versions) 2023)"
    "isl (get_events (example_fetch two_versions) 2026)"
    by (simp_all add: get_events_example_fetch)
  show ?thesis
    using crawl_failures_are_logged_and_skipped[of 2024 "example_fetch two_versions"] y f
    by (simp add: fetch_events_two_versions)
qed

subsection \<open>Auxiliary facts about the event conversion\<close>




lemma msptime_value: "msptime ms = Inr c \<Longrightarrow> c = ms"
  by (auto simp: msptime_def split: if_splits)












subsection \<open>End dates\<close>




subsection \<open>Fields the conversion reads\<close>

text \<open>
  Claim C10. \<^verbatim>\<open>to_ics\<close> reads the eight fields \<^verbatim>\<open>boardNo\<close>, \<^verbatim>\<open>articleNo\<close>,
  \<^verbatim>\<open>articleTitle\<close>, \<^verbatim>\<open>articleText\<close>, \<^verbatim>\<open>createDt\<close>, \<^verbatim>\<open>updateDt\<close>,
  \<^verbatim>\<open>etcChar6\<close> and \<^verbatim>\<open>etcChar7\<close> only: two records that agree on them are
  converted to the same result (the same event, or the same exception).
\<close>

theorem to_ics_reads_eight_fields:
  assumes "boardNo a = boardNo b" and "articleNo a = articleNo b"
    and "articleTitle a = articleTitle b" and "articleText a = articleText b"
    and "createDt a = createDt b" and "updateDt a = updateDt b"
    and "etcChar6 a = etcChar6 b" and "etcChar7 a = etcChar7 b"
  shows "to_ics lib a = to_ics lib b"
  using assms by (simp add: to_ics_def)

theorem to_ics_reads_eight_fields_witness:
  "boardNo (example_event 100 ''T'' ''2024-03-01'' ''2024-02-28'') = boardNo other_unused_fields
   \<and> articleNo (example_event 100 ''T'' ''2024-03-01'' ''2024-02-28'') = articleNo other_unused_fields
   \<and> articleTitle (example_event 100 ''T'' ''2024-03-01'' ''2024-02-28'') = articleTitle other_unused_fields
   \<and> articleText (example_event 100 ''T'' ''2024-03-01'' ''2024-02-28'') = articleText other_unused_fields
   \<and> createDt (example_event 100 ''T'' ''2024-03-01'' ''2024-02-28'') = createDt other_unused_fields
   \<and> updateDt (example_event 100 ''T'' ''2024-03-01'' ''2024-02-28'') = updateDt other_unused_fields
   \<and> etcChar6 (example_event 100 ''T'' ''2024-03-01'' ''2024-02-28'') = etcChar6 other_unused_fields
   \<and> etcChar7 (example_event 100 ''T'' ''2024-03-01'' ''2024-02-28'') = etcChar7 other_unused_fields
   \<and> orderDt (example_event 100 ''T'' ''2024-03-01'' ''2024-02-28'') \<noteq> orderDt other_unused_fields
   \<and> etcChar4 (example_event 100 ''T'' ''2024-03-01'' ''2024-02-28'') \<noteq> etcChar4 other_unused_fields
   \<and> etcChar5 (example_event 100 ''T'' ''2024-03-01'' ''2024-02-28'') \<noteq> etcChar5 other_unused_fields
   \<and> etcChar8 (example_event 100 ''T'' ''2024-03-01'' ''2024-02-28'') \<noteq> etcChar8 other_unused_fields
   \<and> etcChar9 (example_event 100 ''T'' ''2024-03-01'' ''2024-02-28'') \<noteq> etcChar9 other_unused_fields
   \<and> to_ics example_lib (example_event 100 ''T'' ''2024-03-01'' ''2024-02-28'')
       = to_ics example_lib other_unused_fields"
proof -
  have h: "boardNo (example_event 100 ''T'' ''2024-03-01'' ''2024-02-28'') = boardNo other_unused_fields"
    "articleNo (example_event 100 ''T'' ''2024-03-01'' ''2024-02-28'') = articleNo other_unused_fields"
    "articleTitle (example_event 100 ''T'' ''2024-03-01'' ''2024-02-28'') = articleTitle other_unused_fields"
    "articleText (example_event 100 ''T'' ''2024-03-01'' ''2024-02-28'') = articleText other_unused_fields"
    "createDt (example_event 100 ''T'' ''2024-03-01'' ''2024-02-28'') = createDt other_unused_fields"
    "updateDt (example_event 100 ''T'' ''2024-03-01'' ''2024-02-28'') = updateDt other_unused_fields"
    "etcChar6 (example_event 100 ''T'' ''2024-03-01'' ''2024-02-28'') = etcChar6 other_unused_fields"
    "etcChar7 (example_event 100 ''T'' ''2024-03-01'' ''2024-02-28'') = etcChar7 other_unused_fields"
    by (simp_all add: other_unused_fields_def)
  have d: "orderDt (example_event 100 ''T'' ''2024-03-01'' ''2024-02-28'') \<noteq> orderDt other_unused_fields"
    "etcChar4 (example_event 100 ''T'' ''2024-03-01'' ''2024-02-28'') \<noteq> etcChar4 other_unused_fields"
    "etcChar5 (example_event 100 ''T'' ''2024-03-01'' ''2024-02-28'') \<noteq> etcChar5 other_unused_fields"
    "etcChar8 (example_event 100 ''T'' ''2024-03-01'' ''2024-02-28'') \<noteq> etcChar8 other_unused_fields"
    "etcChar9 (example_event 100 ''T'' ''2024-03-01'' ''2024-02-28'') \<noteq> etcChar9 other_unused_fields"
    by (simp_all add: other_unused_fields_def example_event_def)
  from to_ics_reads_eight_fields[OF h, of example_lib] h d show ?thesis
    by simp
qed

subsection \<open>Auxiliary facts about the conversion loop and the run\<close>






lemma main_unfold:
  "main a cy lib fetch write =
     (case add_events lib \<lparr>creator = a, cal_events = []\<rparr>
             (sorted_events (events (fetch_events cy fetch))) of
        Inl e \<Rightarrow> (Inl e, logged (fetch_events cy fetch))
      | Inr cal \<Rightarrow> (write cal, logged (fetch_events cy fetch) @ [(INFO, WritingEvents)]))"
  by (simp add: main_def Let_def)





lemma fetch_events_failing:
  "fetch_events 2024 failing_fetch =
     \<lparr>events = [],
      logged = [(INFO, StartCrawling 2023), (ERROR, FailedToCrawl 2023),
                (INFO, StartCrawling 2024), (ERROR, FailedToCrawl 2024),
                (INFO, StartCrawling 2025), (ERROR, FailedToCrawl 2025),
                (INFO, StartCrawlingAdditional 2021), (WARNING, FailedToCrawlAdditional 2021),
                (INFO, StartCrawlingAdditional 2022), (WARNING, FailedToCrawlAdditional 2022),
                (INFO, StartCrawlingAdditional 2026), (WARNING, FailedToCrawlAdditional 2026)]\<rparr>"
  by (simp add: run_example)


subsection \<open>Date strings that do not parse\<close>




subsection \<open>The order of the output events\<close>




subsection \<open>A run in which every year fails\<close>

text \<open>
  Claim C8. When \<^verbatim>\<open>get_events\<close> fails for each of the six years, the aggregated set is
  empty, no conversion takes place, and the run ends as the writing of the calendar without
  events ends: normally when that succeeds.
\<close>

theorem all_years_failing_gives_empty_calendar:
  assumes "\<forall>y\<in>set (TARGET_YEARS cy @ ADDITIONAL_TARGET_YEARS cy). isl (get_events fetch y)"
  shows "events (fetch_events cy fetch) = []
    \<and> main a cy lib fetch write =
        (write \<lparr>creator = a, cal_events = []\<rparr>,
         logged (fetch_events cy fetch) @ [(INFO, WritingEvents)])
    \<and> (write \<lparr>creator = a, cal_events = []\<rparr> = Inr () \<longrightarrow>
         fst (main a cy lib fetch write) = Inr ())"
proof -
  have "(case get_events fetch y of Inl e \<Rightarrow> {} | Inr evs \<Rightarrow> set evs) = {}"
    if "y \<in> set (TARGET_YEARS cy @ ADDITIONAL_TARGET_YEARS cy)" for y
  proof -
    from that assms have "isl (get_events fetch y)" by blast
    then show ?thesis by (cases "get_events fetch y") auto
  qed
  then have "set (events (fetch_events cy fetch)) = {}"
    unfolding set_events_fetch_events by blast
  then have e: "events (fetch_events cy fetch) = []" by simp
  then show ?thesis
    by (simp add: main_unfold sorted_events_sort_key)
qed

theorem all_years_failing_gives_empty_calendar_witness:
  "isl (get_events failing_fetch 2023) \<and> isl (get_events failing_fetch 2024)
   \<and> isl (get_events failing_fetch 2025) \<and> isl (get_events failing_fetch 2021)
   \<and> isl (get_events failing_fetch 2022) \<and> isl (get_events failing_fetch 2026)
   \<and> events (fetch_events 2024 failing_fetch) = []
   \<and> write_ok \<lparr>creator = ''author'', cal_events = []\<rparr> = Inr ()
   \<and> fst (main ''author'' 2024 example_lib failing_fetch write_ok) = Inr ()"
proof -
  have h: "\<forall>y\<in>set (TARGET_YEARS 2024 @ ADDITIONAL_TARGET_YEARS 2024). isl (get_events failing_fetch y)"
    by (simp add: get_events_failing_fetch)
  from all_years_failing_gives_empty_calendar[OF h, of "''author''" example_lib write_ok]
  show ?thesis
    by (simp add: get_events_failing_fetch write_ok_def)
qed

subsection \<open>Deserialization\<close>

lemma validate_Inr_D:
  "validate j = Inr () \<Longrightarrow>
     \<exists>kvs items. j = JObj kvs \<and> map_of kvs ''success'' = Some (JBool True)
        \<and> map_of kvs ''list'' = Some (JArr items)"
  unfolding validate_def
  by (auto simp: and_then_Inr_iff py_assert_Inr_iff getitem_Inr_iff is_True_iff
      isinstance_list_iff)

lemma deserialize_item_reads_by_key:
  assumes "deserialize_item item = Inr obj"
  shows "reads_by_key item obj"
proof -
  from assms obtain v1 v2 v3 v4 v5 v6 v7 v8 v9 v10 v11 v12 v13 where
    g: "getitem item ''boardNo'' = Inr v1" "getitem item ''articleNo'' = Inr v2"
       "getitem item ''articleTitle'' = Inr v3" "getitem item ''articleText'' = Inr v4"
       "getitem item ''createDt'' = Inr v5" "getitem item ''orderDt'' = Inr v6"
       "getitem item ''updateDt'' = Inr v7" "getitem item ''etcChar4'' = Inr v8"
       "getitem item ''etcChar5'' = Inr v9" "getitem item ''etcChar6'' = Inr v10"
       "getitem item ''etcChar7'' = Inr v11" "getitem item ''etcChar8'' = Inr v12"
       "getitem item ''etcChar9'' = Inr v13"
    and i: "Inr (SmuCalendarEvent_init v1 v2 v3 v4 v5 v6 v7 v8 v9 v10 v11 v12 v13) = Inr obj"
    unfolding deserialize_item_def and_then_Inr_iff by blast
  from i have "obj = SmuCalendarEvent_init v1 v2 v3 v4 v5 v6 v7 v8 v9 v10 v11 v12 v13"
    by simp
  with g show ?thesis
    unfolding reads_by_key_def by (simp add: SmuCalendarEvent_init_def)
qed

lemma deserialize_item_all_keys:
  assumes "has_all_keys item"
  shows "\<exists>obj. deserialize_item item = Inr obj"
proof -
  from assms obtain kvs where item: "item = JObj kvs"
    and k: "list_all (\<lambda>k. map_of kvs k \<noteq> None) required_keys"
    by (cases item) (auto simp: has_all_keys_def)
  from k obtain v1 v2 v3 v4 v5 v6 v7 v8 v9 v10 v11 v12 v13 where
    "map_of kvs ''boardNo'' = Some v1" "map_of kvs ''articleNo'' = Some v2"
    "map_of kvs ''articleTitle'' = Some v3" "map_of kvs ''articleText'' = Some v4"
    "map_of kvs ''createDt'' = Some v5" "map_of kvs ''orderDt'' = Some v6"
    "map_of kvs ''updateDt'' = Some v7" "map_of kvs ''etcChar4'' = Some v8"
    "map_of kvs ''etcChar5'' = Some v9" "map_of kvs ''etcChar6'' = Some v10"
    "map_of kvs ''etcChar7'' = Some v11" "map_of kvs ''etcChar8'' = Some v12"
    "map_of kvs ''etcChar9'' = Some v13"
    unfolding required_keys_def by auto
  then show ?thesis
    by (simp add: item deserialize_item_def)
qed

lemma deserialize_item_KeyError_or_all_present:
  "(\<exists>k'\<in>set required_keys. deserialize_item (JObj kvs) = Inl (KeyError k'))
   \<or> (\<forall>k\<in>set required_keys. map_of kvs k \<noteq> None)"
  apply (cases "map_of kvs ''boardNo''"; simp add: deserialize_item_def required_keys_def)
  apply (cases "map_of kvs ''articleNo''"; simp)
  apply (cases "map_of kvs ''articleTitle''"; simp)
  apply (cases "map_of kvs ''articleText''"; simp)
  apply (cases "map_of kvs ''createDt''"; simp)
  apply (cases "map_of kvs ''orderDt''"; simp)
  apply (cases "map_of kvs ''updateDt''"; simp)
  apply (cases "map_of kvs ''etcChar4''"; simp)
  apply (cases "map_of kvs ''etcChar5''"; simp)
  apply (cases "map_of kvs ''etcChar6''"; simp)
  apply (cases "map_of kvs ''etcChar7''"; simp)
  apply (cases "map_of kvs ''etcChar8''"; simp)
  apply (cases "map_of kvs ''etcChar9''"; simp)
  done

lemma deserialize_item_missing_key:
  assumes "k \<in> set required_keys" and "map_of kvs k = None"
  shows "\<exists>k'\<in>set required_keys. deserialize_item (JObj kvs) = Inl (KeyError k')"
  using deserialize_item_KeyError_or_all_present[of kvs] assms by blast

lemma deserialize_items_Inr_D:
  "deserialize_items items = Inr objs \<Longrightarrow>
     list_all2 (\<lambda>item obj. deserialize_item item = Inr obj) items objs"
proof (induction items arbitrary: objs)
  case Nil
  then show ?case by simp
next
  case (Cons item items)
  from Cons.prems obtain e es where
    e: "deserialize_item item = Inr e" "deserialize_items items = Inr es" "objs = e # es"
    by (auto simp: and_then_Inr_iff)
  with Cons.IH[of es] show ?case by simp
qed

lemma deserialize_items_Inl:
  "item \<in> set items \<Longrightarrow> isl (deserialize_item item) \<Longrightarrow> isl (deserialize_items items)"
proof (induction items)
  case Nil
  then show ?case by simp
next
  case (Cons x xs)
  show ?case
  proof (cases "deserialize_item x")
    case (Inl e)
    then show ?thesis by simp
  next
    case (Inr e)
    with Cons have "isl (deserialize_items xs)" by auto
    with Inr show ?thesis by (cases "deserialize_items xs") auto
  qed
qed

lemma deserialize_items_all_keys:
  "list_all has_all_keys items \<Longrightarrow> \<exists>objs. deserialize_items items = Inr objs"
proof (induction items)
  case Nil
  then show ?case by simp
next
  case (Cons item items)
  from Cons.prems deserialize_item_all_keys[of item] obtain obj where
    "deserialize_item item = Inr obj" by auto
  moreover from Cons obtain objs where "deserialize_items items = Inr objs" by auto
  ultimately show ?case by simp
qed

lemma deserialize_validated:
  assumes "validate j = Inr ()"
  shows "\<exists>items. getitem j ''list'' = Inr (JArr items) \<and> deserialize j = deserialize_items items"
proof -
  from validate_Inr_D[OF assms] obtain kvs items where
    "j = JObj kvs" "map_of kvs ''list'' = Some (JArr items)" by blast
  then show ?thesis by (simp add: deserialize_def)
qed

text \<open>
  Claim C7. For a response that passed validation, \<^verbatim>\<open>_deserialize\<close> walks through the
  array under \<^verbatim>\<open>list\<close>. When every element is an object that holds the thirteen
  keys, it succeeds, whatever the types of the values. When it succeeds it has produced one
  object per element, in order, and each object holds the values its element has under the
  thirteen keys. An element that is an object and lacks one of the keys raises
  \<^verbatim>\<open>KeyError\<close> for one of them, and then deserialization fails, and with it
  \<^verbatim>\<open>get_events\<close> for a year that received this response.
\<close>

theorem deserialize_one_event_per_element:
  assumes "validate j = Inr ()"
  shows "\<exists>items. getitem j ''list'' = Inr (JArr items)
    \<and> (list_all has_all_keys items \<longrightarrow> (\<exists>objs. deserialize j = Inr objs))
    \<and> (\<forall>objs. deserialize j = Inr objs \<longrightarrow>
          length objs = length items
          \<and> (\<forall>i<length items. deserialize_item (items ! i) = Inr (objs ! i)
                \<and> reads_by_key (items ! i) (objs ! i)))
    \<and> (\<forall>kvs k. JObj kvs \<in> set items \<and> k \<in> set required_keys \<and> map_of kvs k = None \<longrightarrow>
          (\<exists>k'\<in>set required_keys. deserialize_item (JObj kvs) = Inl (KeyError k'))
          \<and> isl (deserialize j)
          \<and> (\<forall>fetch year. fetch year = Inr j \<longrightarrow> isl (get_events fetch year)))"
proof -
  from deserialize_validated[OF assms] obtain items where
    items: "getitem j ''list'' = Inr (JArr items)" "deserialize j = deserialize_items items"
    by blast
  have ok: "length objs = length items
      \<and> (\<forall>i<length items. deserialize_item (items ! i) = Inr (objs ! i)
            \<and> reads_by_key (items ! i) (objs ! i))"
    if "deserialize j = Inr objs" for objs
  proof -
    from that items have "list_all2 (\<lambda>item obj. deserialize_item item = Inr obj) items objs"
      by (simp add: deserialize_items_Inr_D)
    then show ?thesis
      by (auto simp: list_all2_conv_all_nth deserialize_item_reads_by_key)
  qed
  have bad: "(\<exists>k'\<in>set required_keys. deserialize_item (JObj kvs) = Inl (KeyError k'))
      \<and> isl (deserialize j)
      \<and> (\<forall>fetch year. fetch year = Inr j \<longrightarrow> isl (get_events fetch year))"
    if "JObj kvs \<in> set items" "k \<in> set required_keys" "map_of kvs k = None" for kvs k
  proof -
    from deserialize_item_missing_key[OF that(2,3)] obtain k' where
      k': "k' \<in> set required_keys" "deserialize_item (JObj kvs) = Inl (KeyError k')"
      by blast
    then have "isl (deserialize_item (JObj kvs))" by simp
    from deserialize_items_Inl[OF that(1) this] items have d: "isl (deserialize j)"
      by simp
    then obtain x where x: "deserialize j = Inl x" by (cases "deserialize j") auto
    have "isl (get_events fetch year)" if "fetch year = Inr j" for fetch year
      using that assms x by (simp add: get_events_def)
    then have g: "\<forall>fetch year. fetch year = Inr j \<longrightarrow> isl (get_events fetch year)"
      by simp
    from k' have "\<exists>k'\<in>set required_keys. deserialize_item (JObj kvs) = Inl (KeyError k')"
      by (rule_tac bexI)
    with d g show ?thesis by simp
  qed
  show ?thesis
  proof (intro exI[of _ items] conjI allI impI)
    show "getitem j ''list'' = Inr (JArr items)" by (rule items(1))
  next
    assume "list_all has_all_keys items"
    from deserialize_items_all_keys[OF this] items(2)
    show "\<exists>objs. deserialize j = Inr objs" by simp
  next
    fix objs assume "deserialize j = Inr objs"
    from ok[OF this] show "length objs = length items" by simp
  next
    fix objs i assume "deserialize j = Inr objs" "i < length items"
    with ok[of objs] show "deserialize_item (items ! i) = Inr (objs ! i)" by simp
  next
    fix objs i assume "deserialize j = Inr objs" "i < length items"
    with ok[of objs] show "reads_by_key (items ! i) (objs ! i)" by simp
  next
    fix kvs k
    assume a: "JObj kvs \<in> set items \<and> k \<in> set required_keys \<and> map_of kvs k = None"
    then have b: "(\<exists>k'\<in>set required_keys. deserialize_item (JObj kvs) = Inl (KeyError k'))
      \<and> isl (deserialize j)
      \<and> (\<forall>fetch year. fetch year = Inr j \<longrightarrow> isl (get_events fetch year))"
      using bad[of kvs k] by simp
    from b show "\<exists>k'\<in>set required_keys. deserialize_item (JObj kvs) = Inl (KeyError k')"
      by simp
    from b show "isl (deserialize j)" by simp
    fix fetch :: "int \<Rightarrow> error + json" and year
    assume "fetch year = Inr j"
    with b show "isl (get_events fetch year)" by simp
  qed
qed

lemma validate_missing_key_response: "validate missing_key_response = Inr ()"
  by (simp add: missing_key_response_def validate_example_response)

lemma validate_null_campus_response: "validate null_campus_response = Inr ()"
  by (simp add: null_campus_response_def validate_example_response)

theorem deserialize_one_event_per_element_witness:
  "validate null_campus_response = Inr ()
   \<and> getitem null_campus_response ''list'' =
       Inr (JArr [example_item 1 ''T'' ''2024-03-01'' ''2024-03-02'', null_campus_item])
   \<and> list_all has_all_keys [example_item 1 ''T'' ''2024-03-01'' ''2024-03-02'', null_campus_item]
   \<and> getitem null_campus_item ''etcChar9'' = Inr JNull
   \<and> deserialize null_campus_response =
       Inr [example_stored 1 ''T'' ''2024-03-01'' ''2024-03-02'', null_campus_stored]
   \<and> reads_by_key (example_item 1 ''T'' ''2024-03-01'' ''2024-03-02'')
        (example_stored 1 ''T'' ''2024-03-01'' ''2024-03-02'')
   \<and> reads_by_key null_campus_item null_campus_stored
   \<and> etcChar9_any null_campus_stored = JNull
   \<and> validate missing_key_response = Inr ()
   \<and> getitem missing_key_response ''list'' =
       Inr (JArr [example_item 1 ''T'' ''2024-03-01'' ''2024-03-02'',
                  JObj [(''boardNo'', JStr ''85'')]])
   \<and> ''articleNo'' \<in> set required_keys
   \<and> map_of [(''boardNo'', JStr ''85'')] ''articleNo'' = None
   \<and> deserialize_item (JObj [(''boardNo'', JStr ''85'')]) = Inl (KeyError ''articleNo'')
   \<and> isl (deserialize missing_key_response)
   \<and> isl (get_events (example_fetch missing_key_response) 2024)"
proof -
  let ?i1 = "example_item 1 ''T'' ''2024-03-01'' ''2024-03-02''"
  let ?o1 = "example_stored 1 ''T'' ''2024-03-01'' ''2024-03-02''"
  have v: "validate null_campus_response = Inr ()"
    by (rule validate_null_campus_response)
  have l: "getitem null_campus_response ''list'' = Inr (JArr [?i1, null_campus_item])"
    by (simp add: null_campus_response_def example_response_def)
  have hk: "list_all has_all_keys [?i1, null_campus_item]"
    by (simp add: has_all_keys_def example_item_def null_campus_item_def required_keys_def)
  have n9: "getitem null_campus_item ''etcChar9'' = Inr JNull"
    by (simp add: null_campus_item_def)
  have s9: "etcChar9_any null_campus_stored = JNull"
    by (simp add: null_campus_stored_def SmuCalendarEvent_init_def)
  have dn: "deserialize_item null_campus_item = Inr null_campus_stored"
    by (simp add: deserialize_item_def null_campus_item_def null_campus_stored_def)
  have d: "deserialize null_campus_response = Inr [?o1, null_campus_stored]"
    by (simp add: null_campus_response_def deserialize_example_response
        deserialize_example_item dn)
  have vm: "validate missing_key_response = Inr ()"
    by (rule validate_missing_key_response)
  have l': "getitem missing_key_response ''list'' =
       Inr (JArr [?i1, JObj [(''boardNo'', JStr ''85'')]])"
    by (simp add: missing_key_response_def example_response_def)
  have k1: "''articleNo'' \<in> set required_keys"
    and k2: "map_of [(''boardNo'', JStr ''85'')] ''articleNo'' = None"
    and k3: "deserialize_item (JObj [(''boardNo'', JStr ''85'')]) = Inl (KeyError ''articleNo'')"
    by (simp_all add: required_keys_def deserialize_item_def)
  have f: "example_fetch missing_key_response 2024 = Inr missing_key_response"
    by (simp add: example_fetch_def)
  from deserialize_one_event_per_element[OF v] obtain items where
    i: "getitem null_campus_response ''list'' = Inr (JArr items)"
    and a: "\<forall>objs. deserialize null_campus_response = Inr objs \<longrightarrow>
          length objs = length items
          \<and> (\<forall>i<length items. deserialize_item (items ! i) = Inr (objs ! i)
                \<and> reads_by_key (items ! i) (objs ! i))"
    by (elim exE conjE)
  from i l have items: "items = [?i1, null_campus_item]"
    by simp
  from a d have n: "\<forall>i<length items. reads_by_key (items ! i) ([?o1, null_campus_stored] ! i)"
    by simp
  from n[rule_format, of 0] n[rule_format, of 1]
  have r1: "reads_by_key ?i1 ?o1" and r2: "reads_by_key null_campus_item null_campus_stored"
    by (simp_all add: items)
  from deserialize_one_event_per_element[OF vm] obtain items' where
    i': "getitem missing_key_response ''list'' = Inr (JArr items')"
    and c: "\<forall>kvs k. JObj kvs \<in> set items' \<and> k \<in> set required_keys \<and> map_of kvs k = None \<longrightarrow>
          (\<exists>k'\<in>set required_keys. deserialize_item (JObj kvs) = Inl (KeyError k'))
          \<and> isl (deserialize missing_key_response)
          \<and> (\<forall>fetch year. fetch year = Inr missing_key_response \<longrightarrow>
                isl (get_events fetch year))"
    by (elim exE conjE)
  from i' l' have "items' = [?i1, JObj [(''boardNo'', JStr ''85'')]]"
    by simp
  then have "JObj [(''boardNo'', JStr ''85'')] \<in> set items'"
    by simp
  with c k1 k2 have c': "isl (deserialize missing_key_response)
          \<and> (\<forall>fetch year. fetch year = Inr missing_key_response \<longrightarrow>
                isl (get_events fetch year))"
    by blast
  with f have b1: "isl (deserialize missing_key_response)"
    and b2: "isl (get_events (example_fetch missing_key_response) 2024)"
    by blast+
  show ?thesis
    by (intro conjI; fact)
qed

subsection \<open>The tag remover\<close>

lemma rfind_None: "c \<notin> set s \<Longrightarrow> rfind c s start = None"
  by (auto simp: rfind_def find_None_iff)

lemma cleanhtml_empty: "cleanhtml lib [] = []"
  by (simp add: cleanhtml_def goahead_def)

lemma cleanhtml_plain_text:
  assumes "CHR ''<'' \<notin> set s" and "CHR ''&'' \<notin> set s"
  shows "cleanhtml lib s = s"
  using assms
  by (cases s) (simp_all add: cleanhtml_def goahead_def Let_def rfind_None unescape_def
      handle_data_def)

text \<open>
  Claim C9 fails on the code for a text that ends in a word with an ampersand, such as
  \<^verbatim>\<open>R&D\<close>: it has no markup, so all of it is text-node content, yet the parser keeps
  it in its buffer, waiting for the rest of a possible character reference, and since
  \<^verbatim>\<open>_cleanhtml\<close> never calls \<^verbatim>\<open>close()\<close> the result is empty.
\<close>

theorem cleanhtml_loses_text_after_ampersand:
  "cleanhtml lib ''R&D'' = ''''"
proof -
  have r: "rfind CHR ''&'' ''R&D'' (length ''R&D'' - 34) = Some 1"
    by code_simp
  have n: "\<not> list_ex space_or_semicolon (drop 1 ''R&D'')"
    by code_simp
  show ?thesis
    using r n by (simp add: cleanhtml_def goahead_def Let_def)
qed

end
